theory Spec2Isabelle
  imports Main "HOL-Library.Sublist"
begin

section \<open>Errors\<close>

text \<open>
  Go error values as the three source files build and test them.
  \<^item> \<open>ErrCanceled\<close> is the sentinel \<^verbatim>\<open>errCanceled\<close>.
  \<^item> \<open>Errno n\<close> is a \<^verbatim>\<open>unix.Errno\<close> returned by a system call.
  \<^item> \<open>OtherError t\<close> is any other error value handed in from outside (the key reader, the
    decoder, a file operation), named by its text.
  \<^item> \<open>Errorf t\<close> is \<^verbatim>\<open>fmt.Errorf(t)\<close>, the format \<open>t\<close> given without operands; its
    message is \<open>t\<close> itself as long as \<open>t\<close> holds no percent sign.
  \<^item> \<open>Errorw t e\<close> is \<^verbatim>\<open>fmt.Errorf(t + ": %w", e)\<close>, which wraps \<open>e\<close>.
  \<^item> \<open>ErrCannotSelect fd\<close> is
    \<^verbatim>\<open>fmt.Errorf("cannot select on file descriptor %d which is larger than 1024", fd)\<close>.
\<close>

datatype error =
    ErrCanceled
  | Errno nat
  | OtherError string
  | Errorf string
  | Errorw string error
  | ErrCannotSelect nat

text \<open>\<^verbatim>\<open>unix.EINTR\<close>, errno 4 on every platform the readers are built for.\<close>

definition EINTR :: error where
  "EINTR = Errno 4"

text \<open>\<^verbatim>\<open>errors.Is(err, target)\<close>: \<open>err\<close> or an error it wraps is \<open>target\<close>.\<close>

fun errors_Is :: "error \<Rightarrow> error \<Rightarrow> bool" where
  "errors_Is (Errorw p e) target = (Errorw p e = target \<or> errors_Is e target)"
| "errors_Is e target = (e = target)"

section \<open>Messages, commands and the program (boba.go)\<close>

text \<open>
  \<^verbatim>\<open>type Msg interface{}\<close>, \<^verbatim>\<open>type Cmd func() Msg\<close> (boba.go, lines 14 and 20). A
  message is a key message (\<^verbatim>\<open>KeyMsg\<close>, over the key type \<open>'k\<close> that \<^verbatim>\<open>ReadKey\<close>
  returns), the quit message \<^verbatim>\<open>quitMsg{}\<close>, a batch \<^verbatim>\<open>batchMsg []Cmd\<close>, or any other
  value (\<open>OtherMsg\<close>, over the application's type \<open>'a\<close>; it also stands for the nil
  interface value). A command is a function value or nil: \<open>None\<close> is the nil command,
  \<open>Some f\<close> a command whose call \<open>f ()\<close> yields its message.
\<close>

datatype ('k, 'a) msg =
    KeyMsg 'k
  | QuitMsg
  | BatchMsg "(unit \<Rightarrow> ('k, 'a) msg) option list"
  | OtherMsg 'a

type_synonym ('k, 'a) cmd = "(unit \<Rightarrow> ('k, 'a) msg) option"

text \<open>\<^verbatim>\<open>func Batch(cmds ...Cmd) Cmd\<close> (boba.go, lines 24-31).\<close>

definition Batch :: "('k, 'a) cmd list \<Rightarrow> ('k, 'a) cmd" where
  "Batch cmds = (if length cmds = 0 then None else Some (\<lambda>_. BatchMsg cmds))"

text \<open>\<^verbatim>\<open>func Quit() Msg\<close> (boba.go, lines 52-54).\<close>

definition Quit :: "unit \<Rightarrow> ('k, 'a) msg" where
  "Quit _ = QuitMsg"

text \<open>
  \<^verbatim>\<open>type Program struct { init Init; update Update; view View }\<close> over the
  application's model type \<open>'m\<close> (boba.go, lines 35-49), and \<^verbatim>\<open>NewProgram\<close>.
\<close>

record ('k, 'a, 'm) Program =
  init :: "unit \<Rightarrow> 'm \<times> ('k, 'a) cmd"
  update :: "('k, 'a) msg \<Rightarrow> 'm \<Rightarrow> 'm \<times> ('k, 'a) cmd"
  view :: "'m \<Rightarrow> string"

definition NewProgram ::
  "(unit \<Rightarrow> 'm \<times> ('k, 'a) cmd) \<Rightarrow> (('k, 'a) msg \<Rightarrow> 'm \<Rightarrow> 'm \<times> ('k, 'a) cmd) \<Rightarrow> ('m \<Rightarrow> string)
     \<Rightarrow> ('k, 'a, 'm) Program" where
  "NewProgram i u v = \<lparr>init = i, update = u, view = v\<rparr>"

subsection \<open>The string functions that render calls\<close>

text \<open>
  \<^verbatim>\<open>strings.Replace(s, old, new, n)\<close> for a non-empty \<open>old\<close>: the first \<open>n\<close>
  non-overlapping occurrences of \<open>old\<close>, found from the left, are replaced by \<open>new\<close>; all
  of them when \<open>n\<close> is negative. The source only calls it with a one-character \<open>old\<close>; the
  empty \<open>old\<close>, which Go treats apart, has no equation here.
\<close>

function (sequential) strings_Replace :: "string \<Rightarrow> string \<Rightarrow> string \<Rightarrow> int \<Rightarrow> string" where
  "strings_Replace [] (c # cs) new n = []"
| "strings_Replace (x # xs) (c # cs) new n =
     (if n = 0 then x # xs
      else if take (length (c # cs)) (x # xs) = c # cs
      then new @ strings_Replace (drop (length (c # cs)) (x # xs)) (c # cs) new (n - 1)
      else x # strings_Replace xs (c # cs) new n)"
  by pat_completeness auto
termination
  by (relation "measure (\<lambda>(s, old, new, n). length s)") auto

text \<open>
  \<^verbatim>\<open>strings.Count(s, substr)\<close> for a non-empty \<open>substr\<close>: the number of non-overlapping
  occurrences, found from the left.
\<close>

function (sequential) strings_Count :: "string \<Rightarrow> string \<Rightarrow> nat" where
  "strings_Count [] (c # cs) = 0"
| "strings_Count (x # xs) (c # cs) =
     (if take (length (c # cs)) (x # xs) = c # cs
      then 1 + strings_Count (drop (length (c # cs)) (x # xs)) (c # cs)
      else strings_Count xs (c # cs))"
  by pat_completeness auto
termination
  by (relation "measure (\<lambda>(s, substr). length s)") auto

subsection \<open>What the main goroutine does\<close>

text \<open>
  The effects of \<^verbatim>\<open>Program.Start\<close> and \<^verbatim>\<open>Program.render\<close> that other parties can
  observe, in the order the main goroutine performs them:
  \<^item> \<open>GoSendCmds cmd\<close>: \<^verbatim>\<open>go func() { cmds <- cmd }()\<close> (lines 92-94);
  \<^item> \<open>CloseDone\<close>: \<^verbatim>\<open>close(done)\<close>;
  \<^item> \<open>RestoreTerminal\<close>: the deferred \<^verbatim>\<open>restoreTerminal()\<close> of line 87, run when
    \<^verbatim>\<open>Start\<close> returns;
  \<^item> \<open>SendCmds cmd\<close>: \<^verbatim>\<open>cmds <- cmd\<close>;
  \<^item> \<open>CallUpdate msg model\<close>: \<^verbatim>\<open>p.update(msg, model)\<close>;
  \<^item> \<open>ClearLines n\<close>: \<^verbatim>\<open>termenv.ClearLines(n)\<close>;
  \<^item> \<open>WriteStdout s\<close>: \<^verbatim>\<open>io.WriteString(os.Stdout, s)\<close>.
\<close>

datatype ('k, 'a, 'm) action =
    GoSendCmds "('k, 'a) cmd"
  | CloseDone
  | RestoreTerminal
  | SendCmds "('k, 'a) cmd"
  | CallUpdate "('k, 'a) msg" 'm
  | ClearLines int
  | WriteStdout string

text \<open>
  \<^verbatim>\<open>func (p *Program) render(model Model, linesRendered int) int\<close> (boba.go, lines
  157-169): the actions performed and the returned count. \<open>CHR 0x0A\<close> is the line feed,
  \<open>CHR 0x0D\<close> the carriage return.
\<close>

definition render :: "('k, 'a, 'm) Program \<Rightarrow> 'm \<Rightarrow> int \<Rightarrow> ('k, 'a, 'm) action list \<times> int" where
  "render p model linesRendered =
     (let view0 = view p model;
          view1 = strings_Replace view0 [CHR 0x0A] [CHR 0x0D, CHR 0x0A] (- 1)
      in ((if linesRendered > 0 then [ClearLines linesRendered] else []) @ [WriteStdout view1],
          int (strings_Count view1 [CHR 0x0D, CHR 0x0A])))"

text \<open>
  One turn of the \<^verbatim>\<open>for { select { ... } }\<close> of \<^verbatim>\<open>Start\<close> (boba.go, lines 128-153).
  The \<^verbatim>\<open>select\<close> receives an error from \<^verbatim>\<open>errs\<close> or a message from \<^verbatim>\<open>msgs\<close>; the
  turn performs its actions and either goes round again with a model and a line count or
  makes \<^verbatim>\<open>Start\<close> return (\<open>Return None\<close> is the nil error).
\<close>

datatype ('k, 'a) event = RecvErrs error | RecvMsgs "('k, 'a) msg"

datatype 'm outcome = Continue 'm int | Return "error option"

fun loop_iteration ::
  "('k, 'a, 'm) Program \<Rightarrow> 'm \<Rightarrow> int \<Rightarrow> ('k, 'a) event \<Rightarrow> ('k, 'a, 'm) action list \<times> 'm outcome" where
  "loop_iteration p model linesRendered (RecvErrs err) =
     ([CloseDone, RestoreTerminal], Return (Some err))"
| "loop_iteration p model linesRendered (RecvMsgs QuitMsg) =
     ([CloseDone, RestoreTerminal], Return None)"
| "loop_iteration p model linesRendered (RecvMsgs (BatchMsg batchedCmds)) =
     (map SendCmds batchedCmds, Continue model linesRendered)"
| "loop_iteration p model linesRendered (RecvMsgs msg) =
     (case update p msg model of (model', cmd) \<Rightarrow>
        (case render p model' linesRendered of (painted, linesRendered') \<Rightarrow>
           ([CallUpdate msg model, SendCmds cmd] @ painted, Continue model' linesRendered')))"

text \<open>
  The loop over the values its \<^verbatim>\<open>select\<close> receives, in order. The result is the
  actions performed and \<open>Some r\<close> when \<^verbatim>\<open>Start\<close> has returned \<open>r\<close>, \<open>None\<close> when the
  loop is waiting for the next value. Every \<^verbatim>\<open>cmds <- cmd\<close> is taken to complete: the
  dispatcher goroutine receives from \<^verbatim>\<open>cmds\<close> until \<^verbatim>\<open>done\<close> is closed, which only
  the returning loop does.
\<close>

fun main_loop ::
  "('k, 'a, 'm) Program \<Rightarrow> 'm \<Rightarrow> int \<Rightarrow> ('k, 'a) event list
     \<Rightarrow> ('k, 'a, 'm) action list \<times> error option option" where
  "main_loop p model linesRendered [] = ([], None)"
| "main_loop p model linesRendered (ev # evs) =
     (case loop_iteration p model linesRendered ev of
        (acts, Return r) \<Rightarrow> (acts, Some r)
      | (acts, Continue model' linesRendered') \<Rightarrow>
          (case main_loop p model' linesRendered' evs of (acts', r) \<Rightarrow> (acts @ acts', r)))"

text \<open>
  \<^verbatim>\<open>func (p *Program) Start() error\<close> (boba.go, lines 72-154). \<open>initTerminal\<close> is the
  result of the call \<^verbatim>\<open>initTerminal()\<close> (\<open>None\<close> for nil), \<open>evs\<close> the values the loop
  receives. When \<^verbatim>\<open>initTerminal\<close> fails nothing has been deferred yet.
\<close>

definition Start ::
  "('k, 'a, 'm) Program \<Rightarrow> error option \<Rightarrow> ('k, 'a) event list
     \<Rightarrow> ('k, 'a, 'm) action list \<times> error option option" where
  "Start p initTerminal evs =
     (case initTerminal of
        Some err \<Rightarrow> ([], Some (Some err))
      | None \<Rightarrow>
          (case init p () of (model, cmd) \<Rightarrow>
             (case render p model 0 of (painted, linesRendered) \<Rightarrow>
                (case main_loop p model linesRendered evs of (acts, r) \<Rightarrow>
                   ((case cmd of None \<Rightarrow> [] | Some f \<Rightarrow> [GoSendCmds cmd]) @ painted @ acts, r)))))"

text \<open>Projections of a list of actions: the commands sent on \<^verbatim>\<open>cmds\<close>, the calls of
  \<^verbatim>\<open>update\<close>, the texts written.\<close>

fun sent_cmds :: "('k, 'a, 'm) action list \<Rightarrow> ('k, 'a) cmd list" where
  "sent_cmds [] = []"
| "sent_cmds (SendCmds c # as) = c # sent_cmds as"
| "sent_cmds (a # as) = sent_cmds as"

fun update_calls :: "('k, 'a, 'm) action list \<Rightarrow> (('k, 'a) msg \<times> 'm) list" where
  "update_calls [] = []"
| "update_calls (CallUpdate msg model # as) = (msg, model) # update_calls as"
| "update_calls (a # as) = update_calls as"

fun writes :: "('k, 'a, 'm) action list \<Rightarrow> string list" where
  "writes [] = []"
| "writes (WriteStdout s # as) = s # writes as"
| "writes (a # as) = writes as"

subsection \<open>The input pump and the command dispatcher\<close>



text \<open>
  The dispatcher on receiving \<open>cmd\<close> from \<^verbatim>\<open>cmds\<close> (boba.go, lines 117-122): the
  goroutines it starts, each of which runs its command and sends the result on \<^verbatim>\<open>msgs\<close>.
\<close>

definition dispatcher_recv :: "('k, 'a) cmd \<Rightarrow> (unit \<Rightarrow> ('k, 'a) msg) list" where
  "dispatcher_recv cmd = (case cmd of None \<Rightarrow> [] | Some f \<Rightarrow> [f])"

subsection \<open>The goroutines of Start together\<close>







section \<open>The cancelable input readers (inputreader_select.go, inputreader_linux.go)\<close>

text \<open>
  A file descriptor is a natural number: the value of \<^verbatim>\<open>Fd()\<close> of an open file, which
  the conversions \<^verbatim>\<open>int(...)\<close> and \<^verbatim>\<open>int32(...)\<close> of the source leave unchanged.
  \<^verbatim>\<open>unix.FD_SETSIZE\<close> is 1024, the number the source's comments and error text name.
\<close>

definition FD_SETSIZE :: nat where
  "FD_SETSIZE = 1024"

text \<open>The \<^verbatim>\<open>io.Reader\<close> handed to a constructor: an \<^verbatim>\<open>*os.File\<close> with its
  descriptor, or a reader of another type.\<close>

datatype reader = OsFile nat | OtherReader

text \<open>
  The calls a reader makes, in order:
  \<^item> \<open>SysSelect n fds\<close>: \<^verbatim>\<open>unix.Select(n, fdSet, nil, nil, nil)\<close> with \<open>fds\<close> set in
    \<^verbatim>\<open>fdSet\<close>;
  \<^item> \<open>SysEpollWait ep\<close>: \<^verbatim>\<open>unix.EpollWait(ep, events, -1)\<close>;
  \<^item> \<open>SysRead fd n\<close>: \<^verbatim>\<open>Read\<close> on the file \<open>fd\<close> into a buffer of \<open>n\<close> bytes;
  \<^item> \<open>SysWrite fd bs\<close>: \<^verbatim>\<open>Write\<close> of \<open>bs\<close> on the file \<open>fd\<close>;
  \<^item> \<open>SysClose fd\<close>: closing \<open>fd\<close>;
  \<^item> \<open>ParseInput fd\<close>: \<^verbatim>\<open>parseInputMsgFromReader\<close> on the file \<open>fd\<close>.
\<close>

datatype op =
    SysSelect nat "nat set"
  | SysEpollWait nat
  | SysRead nat nat
  | SysWrite nat string
  | SysClose nat
  | ParseInput nat

text \<open>
  What the operating system answers. A \<^verbatim>\<open>select\<close> fails or returns with the
  descriptors it left set; an \<^verbatim>\<open>epoll_wait\<close> fails or returns with the descriptor of
  \<^verbatim>\<open>events[0]\<close>; \<^verbatim>\<open>os.Pipe()\<close> fails or returns the descriptors of its read and
  write ends.
\<close>

datatype select_outcome = SelectErr error | SelectReady "nat set"

datatype epoll_outcome = EpollErr error | EpollEvent nat

datatype pipe_outcome = PipeErr error | PipeOk nat nat

text \<open>
  \<^verbatim>\<open>type selectInputReader struct\<close> (inputreader_select.go, lines 40-45) and
  \<^verbatim>\<open>type epollInputReader struct\<close> (inputreader_linux.go, lines 63-69), each file
  field by its descriptor. The second struct has the fields of the first and \<^verbatim>\<open>epoll\<close>.
  The field \<open>file_fd\<close> is the source's \<^verbatim>\<open>file\<close>; \<open>cancelled\<close> is the embedded
  \<^verbatim>\<open>cancelMixin\<close>.
\<close>

record selectInputReader =
  file_fd :: nat
  cancelSignalReader :: nat
  cancelSignalWriter :: nat
  cancelled :: bool

record epollInputReader = selectInputReader +
  epoll :: nat

text \<open>
  Modelled from the spec: the methods \<^verbatim>\<open>isCancelled\<close> and \<^verbatim>\<open>setCancelled\<close> of
  \<^verbatim>\<open>cancelMixin\<close>, whose declaration is not among the source files. The flag is a latch:
  \<^verbatim>\<open>setCancelled\<close> sets it, \<^verbatim>\<open>isCancelled\<close> reads it.
\<close>

definition isCancelled :: "'z selectInputReader_scheme \<Rightarrow> bool" where
  "isCancelled r = cancelled r"

definition setCancelled :: "'z selectInputReader_scheme \<Rightarrow> 'z selectInputReader_scheme" where
  "setCancelled r = r\<lparr>cancelled := True\<rparr>"

datatype inputReader = SelectReader selectInputReader | FallbackReader reader

text \<open>
  Modelled from the spec: \<^verbatim>\<open>newFallbackInputReader\<close>, which is not among the source
  files. It yields the fallback strategy, the reader with no way to cancel, around the
  given stream.
\<close>

definition newFallbackInputReader :: "reader \<Rightarrow> error + inputReader" where
  "newFallbackInputReader rd = Inr (FallbackReader rd)"

text \<open>
  \<^verbatim>\<open>func newSelectInputReader(reader io.Reader) (inputReader, error)\<close>
  (inputreader_select.go, lines 23-38). \<open>pipe\<close> is what \<^verbatim>\<open>os.Pipe()\<close> answers when it
  is called.
\<close>

definition newSelectInputReader :: "reader \<Rightarrow> pipe_outcome \<Rightarrow> error + inputReader" where
  "newSelectInputReader rd pipe =
     (case rd of
        OtherReader \<Rightarrow> newFallbackInputReader rd
      | OsFile fd \<Rightarrow>
          if fd \<ge> FD_SETSIZE then newFallbackInputReader rd
          else (case pipe of
                  PipeErr err \<Rightarrow> Inl err
                | PipeOk pr pw \<Rightarrow>
                    Inr (SelectReader \<lparr>file_fd = fd, cancelSignalReader = pr,
                                       cancelSignalWriter = pw, cancelled = False\<rparr>)))"

text \<open>
  \<^verbatim>\<open>func waitForRead(reader *os.File, abort *os.File) error\<close> (inputreader_select.go,
  lines 109-141). \<open>sels\<close> holds the answers of the \<^verbatim>\<open>select\<close> calls still to come. The
  result is \<open>None\<close> when \<^verbatim>\<open>select\<close> is called and never returns; otherwise the calls
  made, the returned error (\<open>None\<close> for nil) and the answers left.
\<close>

definition waitForRead ::
  "nat \<Rightarrow> nat \<Rightarrow> select_outcome list \<Rightarrow> (op list \<times> error option \<times> select_outcome list) option" where
  "waitForRead readerFd abortFd sels =
     (let maxFd = (if abortFd > readerFd then abortFd else readerFd) in
      if maxFd \<ge> FD_SETSIZE then Some ([], Some (ErrCannotSelect maxFd), sels)
      else (case sels of
              [] \<Rightarrow> None
            | SelectErr err # rest \<Rightarrow>
                Some ([SysSelect (maxFd + 1) {readerFd, abortFd}], Some (Errorw ''select'' err), rest)
            | SelectReady fdSet # rest \<Rightarrow>
                Some ([SysSelect (maxFd + 1) {readerFd, abortFd}],
                      (if abortFd \<in> fdSet then Some ErrCanceled
                       else if readerFd \<in> fdSet then None
                       else Some (Errorf ''select returned without setting a file descriptor'')),
                      rest)))"

text \<open>
  The \<^verbatim>\<open>for\<close> loop of \<^verbatim>\<open>selectInputReader.ReadInput\<close> (inputreader_select.go, lines
  52-77). \<open>drain\<close> is the error of the one-byte \<^verbatim>\<open>Read\<close> on \<^verbatim>\<open>cancelSignalReader\<close>
  (\<open>None\<close>: it read its byte), \<open>decode\<close> the result of \<^verbatim>\<open>parseInputMsgFromReader\<close>. The
  result is \<open>None\<close> when the call never returns; otherwise the calls made and the returned
  error or messages.
\<close>

function select_read_loop ::
  "selectInputReader \<Rightarrow> select_outcome list \<Rightarrow> error option \<Rightarrow> error + 'msg
     \<Rightarrow> (op list \<times> (error + 'msg list)) option" where
  "select_read_loop r sels drain decode =
     (case waitForRead (file_fd r) (cancelSignalReader r) sels of
        None \<Rightarrow> None
      | Some (ops, Some err, rest) \<Rightarrow>
          if errors_Is err EINTR then
            (case select_read_loop r rest drain decode of
               None \<Rightarrow> None
             | Some (ops', res) \<Rightarrow> Some (ops @ ops', res))
          else if errors_Is err ErrCanceled then
            (case drain of
               Some readErr \<Rightarrow>
                 Some (ops @ [SysRead (cancelSignalReader r) 1],
                       Inl (Errorw ''reading cancel signal'' readErr))
             | None \<Rightarrow> Some (ops @ [SysRead (cancelSignalReader r) 1], Inl err))
          else Some (ops, Inl err)
      | Some (ops, None, rest) \<Rightarrow>
          (case decode of
             Inl err \<Rightarrow> Some (ops @ [ParseInput (file_fd r)], Inl err)
           | Inr msg \<Rightarrow> Some (ops @ [ParseInput (file_fd r)], Inr [msg])))"
  by pat_completeness auto
termination
  by (relation "measure (\<lambda>(r, sels, drain, decode). length sels)")
     (auto simp: waitForRead_def EINTR_def Let_def split: if_splits list.splits select_outcome.splits)

text \<open>\<^verbatim>\<open>func (r *selectInputReader) ReadInput() ([]Msg, error)\<close> (lines 47-78).\<close>

definition select_ReadInput ::
  "selectInputReader \<Rightarrow> select_outcome list \<Rightarrow> error option \<Rightarrow> error + 'msg
     \<Rightarrow> (op list \<times> (error + 'msg list)) option" where
  "select_ReadInput r sels drain decode =
     (if isCancelled r then Some ([], Inl ErrCanceled)
      else select_read_loop r sels drain decode)"

text \<open>\<^verbatim>\<open>func (r *selectInputReader) Cancel() bool\<close> (lines 80-86); \<open>written\<close> is the
  error of the \<^verbatim>\<open>Write\<close>.\<close>

definition select_Cancel :: "selectInputReader \<Rightarrow> error option \<Rightarrow> selectInputReader \<times> op list \<times> bool" where
  "select_Cancel r written =
     (setCancelled r, [SysWrite (cancelSignalWriter r) ''c''], written = None)"

text \<open>\<^verbatim>\<open>strings.Join(elems, sep)\<close>.\<close>

fun strings_Join :: "string list \<Rightarrow> string \<Rightarrow> string" where
  "strings_Join [] sep = []"
| "strings_Join [a] sep = a"
| "strings_Join (a # b # elems) sep = a @ sep @ strings_Join (b # elems) sep"

text \<open>
  \<^verbatim>\<open>func (r *selectInputReader) Close() error\<close> (inputreader_select.go, lines 88-107).
  \<open>closeWriter\<close> and \<open>closeReader\<close> are the results of the two \<^verbatim>\<open>Close\<close> calls: \<open>None\<close>
  for nil, \<open>Some t\<close> for an error that \<^verbatim>\<open>%v\<close> prints as \<open>t\<close>. The returned error is
  \<^verbatim>\<open>fmt.Errorf\<close> of the joined texts.
\<close>

definition select_Close :: "selectInputReader \<Rightarrow> string option \<Rightarrow> string option \<Rightarrow> op list \<times> error option" where
  "select_Close r closeWriter closeReader =
     (let errMsgs0 = [];
          errMsgs1 = (case closeWriter of
                        Some err \<Rightarrow> errMsgs0 @ [''closing cancel signal writer: '' @ err]
                      | None \<Rightarrow> errMsgs0);
          errMsgs2 = (case closeReader of
                        Some err \<Rightarrow> errMsgs1 @ [''closing cancel signal reader: '' @ err]
                      | None \<Rightarrow> errMsgs1)
      in ([SysClose (cancelSignalWriter r), SysClose (cancelSignalReader r)],
          if length errMsgs2 > 0 then Some (Errorf (strings_Join errMsgs2 '', '')) else None))"

text \<open>
  \<^verbatim>\<open>func (r *epollInputReader) wait() error\<close> (inputreader_linux.go, lines 133-157).
  \<open>waits\<close> holds the answers of the \<^verbatim>\<open>EpollWait\<close> calls still to come; the result is
  \<open>None\<close> when \<^verbatim>\<open>EpollWait\<close> never returns.
\<close>

fun epoll_wait :: "epollInputReader \<Rightarrow> epoll_outcome list \<Rightarrow> (op list \<times> error option) option" where
  "epoll_wait r [] = None"
| "epoll_wait r (EpollErr err # rest) =
     (if errors_Is err EINTR then
        (case epoll_wait r rest of
           None \<Rightarrow> None
         | Some (ops, res) \<Rightarrow> Some (SysEpollWait (epoll r) # ops, res))
      else Some ([SysEpollWait (epoll r)], Some (Errorw ''kevent'' err)))"
| "epoll_wait r (EpollEvent fd # rest) =
     Some ([SysEpollWait (epoll r)],
           if fd = file_fd r then None
           else if fd = cancelSignalReader r then Some ErrCanceled
           else Some (Errorf ''unknown error''))"

text \<open>\<^verbatim>\<open>func (r *epollInputReader) ReadInput() ([]Msg, error)\<close> (inputreader_linux.go,
  lines 71-96).\<close>

definition epoll_ReadInput ::
  "epollInputReader \<Rightarrow> epoll_outcome list \<Rightarrow> error option \<Rightarrow> error + 'msg
     \<Rightarrow> (op list \<times> (error + 'msg list)) option" where
  "epoll_ReadInput r waits drain decode =
     (if isCancelled r then Some ([], Inl ErrCanceled)
      else (case epoll_wait r waits of
              None \<Rightarrow> None
            | Some (ops, Some err) \<Rightarrow>
                if errors_Is err ErrCanceled then
                  (case drain of
                     Some readErr \<Rightarrow>
                       Some (ops @ [SysRead (cancelSignalReader r) 1],
                             Inl (Errorw ''reading cancel signal'' readErr))
                   | None \<Rightarrow> Some (ops @ [SysRead (cancelSignalReader r) 1], Inl err))
                else Some (ops, Inl err)
            | Some (ops, None) \<Rightarrow>
                (case decode of
                   Inl err \<Rightarrow> Some (ops @ [ParseInput (file_fd r)], Inl err)
                 | Inr msg \<Rightarrow> Some (ops @ [ParseInput (file_fd r)], Inr [msg]))))"

text \<open>\<^verbatim>\<open>func (r *epollInputReader) Cancel() bool\<close> (lines 98-104).\<close>

definition epoll_Cancel :: "epollInputReader \<Rightarrow> error option \<Rightarrow> epollInputReader \<times> op list \<times> bool" where
  "epoll_Cancel r written =
     (setCancelled r, [SysWrite (cancelSignalWriter r) ''c''], written = None)"

text \<open>\<^verbatim>\<open>func (r *epollInputReader) Close() error\<close> (inputreader_linux.go, lines
  106-131), its three results read as for \<open>select_Close\<close>.\<close>

definition epoll_Close ::
  "epollInputReader \<Rightarrow> string option \<Rightarrow> string option \<Rightarrow> string option \<Rightarrow> op list \<times> error option" where
  "epoll_Close r closeEpoll closeWriter closeReader =
     (let errMsgs0 = [];
          errMsgs1 = (case closeEpoll of
                        Some err \<Rightarrow> errMsgs0 @ [''closing epoll: '' @ err]
                      | None \<Rightarrow> errMsgs0);
          errMsgs2 = (case closeWriter of
                        Some err \<Rightarrow> errMsgs1 @ [''closing cancel signal writer: '' @ err]
                      | None \<Rightarrow> errMsgs1);
          errMsgs3 = (case closeReader of
                        Some err \<Rightarrow> errMsgs2 @ [''closing cancel signal reader: '' @ err]
                      | None \<Rightarrow> errMsgs2)
      in ([SysClose (epoll r), SysClose (cancelSignalWriter r), SysClose (cancelSignalReader r)],
          if length errMsgs3 > 0 then Some (Errorf (strings_Join errMsgs3 '', '')) else None))"

section \<open>Notions the properties are stated with\<close>

text \<open>The number of line-feed characters of a text, and the text with every line feed
  turned into carriage return and line feed.\<close>

definition line_feeds :: "string \<Rightarrow> nat" where
  "line_feeds s = length (filter (\<lambda>c. c = CHR 0x0A) s)"

text \<open>
  The number of lines of a text, as a terminal shows them: every line feed ends a line,
  and what follows the last line feed is one more line unless it is empty. A text is
  unterminated when it has such a last line with no line feed at its end.
\<close>

definition unterminated :: "string \<Rightarrow> bool" where
  "unterminated s = (s \<noteq> [] \<and> last s \<noteq> CHR 0x0A)"

definition line_count :: "string \<Rightarrow> nat" where
  "line_count s = line_feeds s + (if unterminated s then 1 else 0)"

definition crlf_text :: "string \<Rightarrow> string" where
  "crlf_text s = concat (map (\<lambda>c. if c = CHR 0x0A then [CHR 0x0D, CHR 0x0A] else [c]) s)"

text \<open>The texts of the release steps that failed, each step given by its label and its
  result, in the order of the steps.\<close>

definition failures :: "(string \<times> string option) list \<Rightarrow> string list" where
  "failures steps =
     concat (map (\<lambda>(label, res). case res of None \<Rightarrow> [] | Some err \<Rightarrow> [label @ '': '' @ err]) steps)"

text \<open>What a read woken by the cancel signal returns, given the error of its one-byte
  read of the signal.\<close>

definition cancel_result :: "error option \<Rightarrow> error" where
  "cancel_result drain =
     (case drain of None \<Rightarrow> ErrCanceled | Some readErr \<Rightarrow> Errorw ''reading cancel signal'' readErr)"

section \<open>An example program and example readers\<close>

text \<open>
  A program whose model is a number of lines: it starts with three and no command, every
  update takes two lines away and returns the nil command, and the view is that many
  lines.
\<close>

definition demo :: "(char, unit, nat) Program" where
  "demo = \<lparr>init = (\<lambda>_. (3, None)),
           update = (\<lambda>msg model. (model - 2, None)),
           view = (\<lambda>model. concat (replicate model ''line\<newline>''))\<rparr>"

text \<open>A program whose view is always the one line that the \<^verbatim>\<open>view\<close> function of
  examples/textinputs/main.go returns at its line 173, with no line feed at its end.\<close>

definition flat :: "(char, unit, nat) Program" where
  "flat = \<lparr>init = (\<lambda>_. (0, None)),
           update = (\<lambda>msg model. (model, None)),
           view = (\<lambda>model. ''[error] could not perform assertion on model'')\<rparr>"





text \<open>Readers on standard input: one whose signal pipe has small descriptors, one whose
  signal pipe got the descriptors 1024 and 1025, and an epoll reader.\<close>

definition demo_select :: selectInputReader where
  "demo_select = \<lparr>file_fd = 0, cancelSignalReader = 3, cancelSignalWriter = 4, cancelled = False\<rparr>"

definition high_select :: selectInputReader where
  "high_select = \<lparr>file_fd = 0, cancelSignalReader = 1024, cancelSignalWriter = 1025, cancelled = False\<rparr>"

definition demo_epoll :: epollInputReader where
  "demo_epoll = \<lparr>file_fd = 0, cancelSignalReader = 3, cancelSignalWriter = 4, cancelled = False, epoll = 5\<rparr>"

section \<open>Lemmas on render and the main loop\<close>

lemma Replace_lf_crlf: "n < 0 \<Longrightarrow> strings_Replace s [CHR 0x0A] [CHR 0x0D, CHR 0x0A] n = crlf_text s"
  by (induction s arbitrary: n) (auto simp: crlf_text_def)

lemma crlf_text_no_leading_lf: "take 1 (crlf_text s) \<noteq> [CHR 0x0A]"
  by (cases s) (auto simp: crlf_text_def)

lemma Count_crlf_Cons:
  assumes "x \<noteq> CHR 0x0A"
  shows "strings_Count (x # crlf_text s) [CHR 0x0D, CHR 0x0A] =
         strings_Count (crlf_text s) [CHR 0x0D, CHR 0x0A]"
  using crlf_text_no_leading_lf [of s] by (cases "crlf_text s") auto

lemma Count_crlf_text: "strings_Count (crlf_text s) [CHR 0x0D, CHR 0x0A] = line_feeds s"
proof (induction s)
  case Nil
  show ?case by (simp add: line_feeds_def crlf_text_def)
next
  case (Cons x xs)
  show ?case
  proof (cases "x = CHR 0x0A")
    case True
    have "crlf_text (x # xs) = CHR 0x0D # CHR 0x0A # crlf_text xs"
      using True by (simp add: crlf_text_def)
    then show ?thesis using True Cons.IH by (simp add: line_feeds_def)
  next
    case False
    have "crlf_text (x # xs) = x # crlf_text xs"
      using False by (simp add: crlf_text_def)
    then show ?thesis
      using False Cons.IH Count_crlf_Cons [OF False, of xs] by (simp add: line_feeds_def)
  qed
qed

lemma render_eq:
  "render p model n =
     ((if n > 0 then [ClearLines n] else []) @ [WriteStdout (crlf_text (view p model))],
      int (line_feeds (view p model)))"
  by (simp add: render_def Let_def Replace_lf_crlf Count_crlf_text)

lemma sent_cmds_map: "sent_cmds (map SendCmds cs) = cs"
  by (induction cs) auto

lemma update_calls_map: "update_calls (map SendCmds cs) = []"
  by (induction cs) auto

lemma writes_map: "writes (map SendCmds cs) = []"
  by (induction cs) auto


lemma main_loop_append:
  "main_loop p model n evs = (acts, None) \<Longrightarrow>
   \<exists>model' n'. \<forall>evs'. main_loop p model n (evs @ evs') =
       (acts @ fst (main_loop p model' n' evs'), snd (main_loop p model' n' evs'))"
proof (induction evs arbitrary: model n acts)
  case Nil
  then show ?case by (auto intro!: exI [of _ model] exI [of _ n])
next
  case (Cons ev evs)
  obtain a k where it: "loop_iteration p model n ev = (a, k)"
    by (cases "loop_iteration p model n ev")
  show ?case
  proof (cases k)
    case (Return r)
    with it Cons.prems show ?thesis by simp
  next
    case (Continue model1 n1)
    obtain a1 r1 where ml: "main_loop p model1 n1 evs = (a1, r1)"
      by (cases "main_loop p model1 n1 evs")
    with it Continue Cons.prems have r1: "r1 = None" and acts: "acts = a @ a1" by auto
    from Cons.IH [OF ml [unfolded r1]] obtain model' n' where
      "\<forall>evs'. main_loop p model1 n1 (evs @ evs') =
         (a1 @ fst (main_loop p model' n' evs'), snd (main_loop p model' n' evs'))"
      by blast
    with it Continue acts show ?thesis
      by (auto intro!: exI [of _ model'] exI [of _ n'] simp: split_beta)
  qed
qed

lemma main_loop_quit:
  assumes "main_loop p model n evs = (acts, None)"
  shows "main_loop p model n (evs @ RecvMsgs QuitMsg # evs') =
           (acts @ [CloseDone, RestoreTerminal], Some None)"
proof -
  from main_loop_append [OF assms] obtain model' n' where
    "main_loop p model n (evs @ RecvMsgs QuitMsg # evs') =
       (acts @ fst (main_loop p model' n' (RecvMsgs QuitMsg # evs')),
        snd (main_loop p model' n' (RecvMsgs QuitMsg # evs')))"
    by blast
  then show ?thesis by simp
qed

section \<open>Lemmas on the goroutines together\<close>










section \<open>Lemmas on the readers\<close>

lemma EINTR_distinct [simp]:
  "ErrCanceled \<noteq> EINTR" "Errorw p e \<noteq> EINTR" "ErrCannotSelect n \<noteq> EINTR"
  "Errorf t \<noteq> EINTR" "EINTR \<noteq> ErrCanceled"
  by (simp_all add: EINTR_def)

declare select_read_loop.simps [simp del]

lemma select_read_loop_ceiling:
  assumes "FD_SETSIZE \<le> max (file_fd r) (cancelSignalReader r)"
  shows "select_read_loop r sels drain decode =
           Some ([], Inl (ErrCannotSelect (max (file_fd r) (cancelSignalReader r))))"
proof -
  have "waitForRead (file_fd r) (cancelSignalReader r) sels =
          Some ([], Some (ErrCannotSelect (max (file_fd r) (cancelSignalReader r))), sels)"
    using assms by (auto simp: waitForRead_def Let_def max_def)
  then show ?thesis by (simp add: select_read_loop.simps [of r sels])
qed

lemma waitForRead_below:
  assumes "readerFd < FD_SETSIZE" "abortFd < FD_SETSIZE"
  shows "waitForRead readerFd abortFd [] = None"
    and "waitForRead readerFd abortFd (SelectErr err # rest) =
           Some ([SysSelect (max readerFd abortFd + 1) {readerFd, abortFd}],
                 Some (Errorw ''select'' err), rest)"
    and "waitForRead readerFd abortFd (SelectReady fdSet # rest) =
           Some ([SysSelect (max readerFd abortFd + 1) {readerFd, abortFd}],
                 (if abortFd \<in> fdSet then Some ErrCanceled
                  else if readerFd \<in> fdSet then None
                  else Some (Errorf ''select returned without setting a file descriptor'')), rest)"
  using assms by (auto simp: waitForRead_def Let_def max_def)

lemma select_read_loop_calls_select:
  assumes "file_fd r < FD_SETSIZE" "cancelSignalReader r < FD_SETSIZE"
    and "select_read_loop r sels drain decode = Some (ops, res)"
  shows "\<exists>ops'. ops = SysSelect (max (file_fd r) (cancelSignalReader r) + 1)
                         {file_fd r, cancelSignalReader r} # ops'"
proof (cases sels)
  case Nil
  with assms show ?thesis by (simp add: select_read_loop.simps [of r "[]"] waitForRead_below)
next
  case (Cons s rest)
  show ?thesis
  proof (cases s)
    case (SelectErr err)
    with Cons assms show ?thesis
      by (auto simp: select_read_loop.simps [of r "SelectErr err # rest"] waitForRead_below
          split: if_splits option.splits)
  next
    case (SelectReady fdSet)
    with Cons assms show ?thesis
      by (auto simp: select_read_loop.simps [of r "SelectReady fdSet # rest"] waitForRead_below
          split: if_splits option.splits sum.splits)
  qed
qed

lemma select_read_loop_cancel:
  assumes "file_fd r < FD_SETSIZE" "cancelSignalReader r < FD_SETSIZE"
    and "\<forall>e \<in> set es. errors_Is e EINTR"
    and "cancelSignalReader r \<in> fdSet"
  shows "select_read_loop r (map SelectErr es @ SelectReady fdSet # rest) drain decode =
           Some (replicate (length es + 1)
                   (SysSelect (max (file_fd r) (cancelSignalReader r) + 1)
                      {file_fd r, cancelSignalReader r})
                 @ [SysRead (cancelSignalReader r) 1],
                 Inl (cancel_result drain))"
  using assms(3)
proof (induction es)
  case Nil
  show ?case using assms(1,2,4)
    by (simp add: select_read_loop.simps [of r "SelectReady fdSet # rest"] waitForRead_below
        cancel_result_def split: option.splits)
next
  case (Cons e es)
  then have "errors_Is e EINTR"
    and IH: "select_read_loop r (map SelectErr es @ SelectReady fdSet # rest) drain decode =
           Some (replicate (length es + 1)
                   (SysSelect (max (file_fd r) (cancelSignalReader r) + 1)
                      {file_fd r, cancelSignalReader r})
                 @ [SysRead (cancelSignalReader r) 1],
                 Inl (cancel_result drain))"
    by auto
  then show ?case using assms(1,2)
    by (simp add: select_read_loop.simps
          [of r "SelectErr e # map SelectErr es @ SelectReady fdSet # rest"]
        waitForRead_below)
qed

lemma epoll_wait_cancel:
  assumes "\<forall>e \<in> set es. errors_Is e EINTR"
    and "cancelSignalReader r \<noteq> file_fd r"
  shows "epoll_wait r (map EpollErr es @ EpollEvent (cancelSignalReader r) # rest) =
           Some (replicate (length es + 1) (SysEpollWait (epoll r)), Some ErrCanceled)"
  using assms by (induction es) auto

lemma strings_Join_sublist: "m \<in> set ms \<Longrightarrow> sublist m (strings_Join ms sep)"
proof (induction ms sep rule: strings_Join.induct)
  case (1 sep)
  then show ?case by simp
next
  case (2 a sep)
  then show ?case by simp
next
  case (3 a b elems sep)
  show ?case
  proof (cases "m = a")
    case True
    then show ?thesis by (simp add: sublist_append_rightI)
  next
    case False
    with 3 have "sublist m (strings_Join (b # elems) sep)" by simp
    then obtain ps ss where "strings_Join (b # elems) sep = ps @ m @ ss"
      by (auto simp: sublist_def)
    then have "strings_Join (a # b # elems) sep = (a @ sep @ ps) @ m @ ss" by simp
    then show ?thesis unfolding sublist_def by blast
  qed
qed

lemma select_Close_eq:
  "select_Close r w rd =
     ([SysClose (cancelSignalWriter r), SysClose (cancelSignalReader r)],
      (let fs = failures [(''closing cancel signal writer'', w), (''closing cancel signal reader'', rd)]
       in if fs = [] then None else Some (Errorf (strings_Join fs '', ''))))"
  by (simp add: select_Close_def failures_def Let_def split: option.splits)

lemma epoll_Close_eq:
  "epoll_Close r ep w rd =
     ([SysClose (epoll r), SysClose (cancelSignalWriter r), SysClose (cancelSignalReader r)],
      (let fs = failures [(''closing epoll'', ep), (''closing cancel signal writer'', w),
                          (''closing cancel signal reader'', rd)]
       in if fs = [] then None else Some (Errorf (strings_Join fs '', ''))))"
  by (simp add: epoll_Close_def failures_def Let_def split: option.splits)

lemma failures_mem: "(label, Some t) \<in> set steps \<Longrightarrow> label @ '': '' @ t \<in> set (failures steps)"
  by (force simp: failures_def)

lemma failures_empty: "failures steps = [] \<longleftrightarrow> (\<forall>(label, res) \<in> set steps. res = None)"
  by (induction steps) (auto simp: failures_def split: option.splits)

lemma close_result_sublist:
  assumes "(label, Some t) \<in> set steps"
  shows "\<exists>m. (let fs = failures steps
              in if fs = [] then None else Some (Errorf (strings_Join fs sep))) = Some (Errorf m) \<and>
             sublist (label @ '': '' @ t) m"
proof -
  from assms have mem: "label @ '': '' @ t \<in> set (failures steps)" by (rule failures_mem)
  then have "failures steps \<noteq> []" by auto
  with mem show ?thesis by (auto simp: Let_def intro: strings_Join_sublist)
qed

lemma close_step_reported:
  assumes "res = (let fs = failures steps
                  in if fs = [] then None else Some (Errorf (strings_Join fs sep)))"
    and "(label, Some t) \<in> set steps" and "text = label @ '': '' @ t"
  shows "\<exists>m. res = Some (Errorf m) \<and> sublist text m"
  using close_result_sublist [OF assms(2), of sep] assms(1,3) by simp

section \<open>The claims\<close>

subsection \<open>C1: the descriptor ceiling of the select strategy\<close>

text \<open>
  C1 as stated fails. With standard input (descriptor 0) as the stream and a signal
  pipe whose ends got the descriptors 1024 and 1025, \<^verbatim>\<open>newSelectInputReader\<close> does not
  fall back: it returns the select reader, and the \<^verbatim>\<open>ReadInput\<close> of that reader fails
  because of the pipe's descriptor, before any \<^verbatim>\<open>select\<close>, although data is ready.
\<close>

theorem select_ceiling_counterexample:
  "FD_SETSIZE \<le> 1024 \<and>
   newSelectInputReader (OsFile 0) (PipeOk 1024 1025) = Inr (SelectReader high_select) \<and>
   newSelectInputReader (OsFile 0) (PipeOk 1024 1025) \<noteq> newFallbackInputReader (OsFile 0) \<and>
   select_ReadInput high_select [SelectReady {0}] None
       (Inr (KeyMsg CHR ''a'') :: error + (char, unit) msg) =
     Some ([], Inl (ErrCannotSelect 1024))"
  by (simp add: FD_SETSIZE_def newSelectInputReader_def newFallbackInputReader_def high_select_def
      select_ReadInput_def isCancelled_def select_read_loop.simps waitForRead_def)

text \<open>
  C1, amended. \<^verbatim>\<open>newSelectInputReader\<close> falls back to the non-cancelable strategy when
  the stream is not an OS file or when the stream's descriptor is \<^verbatim>\<open>FD_SETSIZE\<close> or
  more. Otherwise it creates the signal pipe and returns the select reader (or the
  pipe's error) whatever the pipe's descriptors are: they are not compared with the
  ceiling. A \<^verbatim>\<open>ReadInput\<close> of a select reader whose flag is not set, and whose larger
  descriptor is \<^verbatim>\<open>FD_SETSIZE\<close> or more, fails with the "cannot select on file
  descriptor" error without calling \<^verbatim>\<open>select\<close>; when both descriptors are below the
  ceiling, a \<^verbatim>\<open>ReadInput\<close> that returns has called \<^verbatim>\<open>select\<close> first.
\<close>

theorem select_ceiling:
  "newSelectInputReader OtherReader pipe = newFallbackInputReader OtherReader \<and>
   (FD_SETSIZE \<le> fd \<longrightarrow> newSelectInputReader (OsFile fd) pipe = newFallbackInputReader (OsFile fd)) \<and>
   (fd' < FD_SETSIZE \<longrightarrow>
      newSelectInputReader (OsFile fd') (PipeErr err) = Inl err \<and>
      newSelectInputReader (OsFile fd') (PipeOk pr pw) =
        Inr (SelectReader \<lparr>file_fd = fd', cancelSignalReader = pr, cancelSignalWriter = pw,
                           cancelled = False\<rparr>)) \<and>
   (\<not> isCancelled r \<and> FD_SETSIZE \<le> max (file_fd r) (cancelSignalReader r) \<longrightarrow>
      select_ReadInput r sels drain decode =
        Some ([], Inl (ErrCannotSelect (max (file_fd r) (cancelSignalReader r))))) \<and>
   (\<not> isCancelled r' \<and> file_fd r' < FD_SETSIZE \<and> cancelSignalReader r' < FD_SETSIZE \<and>
    select_ReadInput r' sels' drain' decode' = Some (ops, res) \<longrightarrow>
      (\<exists>ops'. ops = SysSelect (max (file_fd r') (cancelSignalReader r') + 1)
                       {file_fd r', cancelSignalReader r'} # ops'))"
proof -
  have a: "newSelectInputReader OtherReader pipe = newFallbackInputReader OtherReader"
    by (simp add: newSelectInputReader_def)
  have b: "FD_SETSIZE \<le> fd \<longrightarrow>
      newSelectInputReader (OsFile fd) pipe = newFallbackInputReader (OsFile fd)"
    by (simp add: newSelectInputReader_def)
  have c: "fd' < FD_SETSIZE \<longrightarrow>
      newSelectInputReader (OsFile fd') (PipeErr err) = Inl err \<and>
      newSelectInputReader (OsFile fd') (PipeOk pr pw) =
        Inr (SelectReader \<lparr>file_fd = fd', cancelSignalReader = pr, cancelSignalWriter = pw,
                           cancelled = False\<rparr>)"
    by (simp add: newSelectInputReader_def)
  have d: "\<not> isCancelled r \<and> FD_SETSIZE \<le> max (file_fd r) (cancelSignalReader r) \<longrightarrow>
      select_ReadInput r sels drain decode =
        Some ([], Inl (ErrCannotSelect (max (file_fd r) (cancelSignalReader r))))"
    by (simp add: select_ReadInput_def select_read_loop_ceiling)
  have e: "\<not> isCancelled r' \<and> file_fd r' < FD_SETSIZE \<and> cancelSignalReader r' < FD_SETSIZE \<and>
    select_ReadInput r' sels' drain' decode' = Some (ops, res) \<longrightarrow>
      (\<exists>ops'. ops = SysSelect (max (file_fd r') (cancelSignalReader r') + 1)
                       {file_fd r', cancelSignalReader r'} # ops')"
    using select_read_loop_calls_select [of r' sels' drain' decode' ops res]
    by (auto simp: select_ReadInput_def)
  from a b c d e show ?thesis by blast
qed

text \<open>The amended C1 at a stream with descriptor 2000, at the reader whose pipe has the
  descriptors 1024 and 1025, and at the reader whose pipe has the descriptors 3 and 4.\<close>

theorem select_ceiling_witness:
  "FD_SETSIZE \<le> 2000 \<and>
   newSelectInputReader (OsFile 2000) (PipeOk 3 4) = newFallbackInputReader (OsFile 2000) \<and>
   (0::nat) < FD_SETSIZE \<and>
   newSelectInputReader (OsFile 0) (PipeOk 1024 1025) = Inr (SelectReader high_select) \<and>
   \<not> isCancelled high_select \<and>
   FD_SETSIZE \<le> max (file_fd high_select) (cancelSignalReader high_select) \<and>
   select_ReadInput high_select [SelectReady {0}] None
       (Inr (KeyMsg CHR ''a'') :: error + (char, unit) msg) =
     Some ([], Inl (ErrCannotSelect 1024)) \<and>
   \<not> isCancelled demo_select \<and> file_fd demo_select < FD_SETSIZE \<and>
   cancelSignalReader demo_select < FD_SETSIZE \<and>
   select_ReadInput demo_select [SelectReady {0}] None
       (Inr (KeyMsg CHR ''a'') :: error + (char, unit) msg) =
     Some ([SysSelect 4 {0, 3}, ParseInput 0], Inr [KeyMsg CHR ''a'']) \<and>
   (\<exists>ops'. [SysSelect 4 {0, 3}, ParseInput 0] =
      SysSelect (max (file_fd demo_select) (cancelSignalReader demo_select) + 1)
        {file_fd demo_select, cancelSignalReader demo_select} # ops')"
proof -
  have rd: "select_ReadInput demo_select [SelectReady {0}] None
       (Inr (KeyMsg CHR ''a'') :: error + (char, unit) msg) =
     Some ([SysSelect 4 {0, 3}, ParseInput 0], Inr [KeyMsg CHR ''a''])"
    by (simp add: FD_SETSIZE_def demo_select_def select_ReadInput_def isCancelled_def
        select_read_loop.simps waitForRead_def)
  have hs: "high_select =
      \<lparr>file_fd = 0, cancelSignalReader = 1024, cancelSignalWriter = 1025, cancelled = False\<rparr>"
    by (simp add: high_select_def)
  have pre: "\<not> isCancelled high_select"
    "FD_SETSIZE \<le> max (file_fd high_select) (cancelSignalReader high_select)"
    "\<not> isCancelled demo_select" "file_fd demo_select < FD_SETSIZE"
    "cancelSignalReader demo_select < FD_SETSIZE"
    "FD_SETSIZE \<le> 2000" "(0::nat) < FD_SETSIZE"
    by (simp_all add: FD_SETSIZE_def demo_select_def high_select_def isCancelled_def)
  have mx: "max (file_fd high_select) (cancelSignalReader high_select) = 1024"
    by (simp add: high_select_def)
  from select_ceiling [where fd = 2000 and pipe = "PipeOk 3 4" and fd' = 0 and pr = 1024
      and pw = 1025 and r = high_select and sels = "[SelectReady {0}]" and drain = None
      and decode = "Inr (KeyMsg CHR ''a'') :: error + (char, unit) msg"
      and r' = demo_select and sels' = "[SelectReady {0}]" and drain' = None
      and decode' = "Inr (KeyMsg CHR ''a'') :: error + (char, unit) msg"
      and ops = "[SysSelect 4 {0, 3}, ParseInput 0]" and res = "Inr [KeyMsg CHR ''a'']"]
    rd pre
  show ?thesis by (simp add: hs [symmetric] mx)
qed

subsection \<open>C2: the input pump and the error channel\<close>





subsection \<open>C3: a message that is neither quit nor batch\<close>

text \<open>
  C3 as stated fails. The example program's \<^verbatim>\<open>update\<close> returns the nil command, and
  the loop, handling a key message, sends that nil command on \<^verbatim>\<open>cmds\<close>.
\<close>

theorem update_iteration_counterexample:
  "snd (update demo (KeyMsg CHR ''a'') 3) = None \<and>
   sent_cmds (fst (loop_iteration demo 3 3 (RecvMsgs (KeyMsg CHR ''a'')))) = [None]"
  by (simp add: demo_def render_eq)

text \<open>
  C3, amended. For a message that is neither the quit message nor a batch, the loop
  calls \<^verbatim>\<open>update\<close> on the message and the current model, takes the returned model as
  the current one, sends the returned command on \<^verbatim>\<open>cmds\<close> whether it is nil or not, and
  then repaints: it writes the view of the new model and keeps the new line count. It is
  the dispatcher that drops a nil command: on receiving nil it starts nothing, on
  receiving a command it starts one goroutine that runs it.
\<close>

theorem update_iteration:
  "(msg \<noteq> QuitMsg \<and> (\<forall>cs. msg \<noteq> BatchMsg cs) \<longrightarrow>
      loop_iteration p model n (RecvMsgs msg) =
        ([CallUpdate msg model, SendCmds (snd (update p msg model))]
           @ fst (render p (fst (update p msg model)) n),
         Continue (fst (update p msg model)) (snd (render p (fst (update p msg model)) n))) \<and>
      sent_cmds (fst (loop_iteration p model n (RecvMsgs msg))) = [snd (update p msg model)] \<and>
      update_calls (fst (loop_iteration p model n (RecvMsgs msg))) = [(msg, model)] \<and>
      writes (fst (loop_iteration p model n (RecvMsgs msg))) =
        [crlf_text (view p (fst (update p msg model)))]) \<and>
   dispatcher_recv (None :: ('k, 'a) cmd) = [] \<and>
   dispatcher_recv (Some f) = [f]"
proof -
  have "loop_iteration p model n (RecvMsgs msg) =
        ([CallUpdate msg model, SendCmds (snd (update p msg model))]
           @ fst (render p (fst (update p msg model)) n),
         Continue (fst (update p msg model)) (snd (render p (fst (update p msg model)) n)))"
    if "msg \<noteq> QuitMsg" "\<forall>cs. msg \<noteq> BatchMsg cs"
    using that by (cases msg) (simp_all add: split_beta)
  then show ?thesis by (simp add: render_eq dispatcher_recv_def)
qed

text \<open>The amended C3 at the example program and a key message.\<close>

theorem update_iteration_witness:
  "KeyMsg CHR ''a'' \<noteq> (QuitMsg :: (char, unit) msg) \<and>
   loop_iteration demo 3 3 (RecvMsgs (KeyMsg CHR ''a'')) =
     ([CallUpdate (KeyMsg CHR ''a'') 3, SendCmds None, ClearLines 3,
       WriteStdout (crlf_text ''line\<newline>'')], Continue 1 1) \<and>
   sent_cmds (fst (loop_iteration demo 3 3 (RecvMsgs (KeyMsg CHR ''a'')))) = [None] \<and>
   dispatcher_recv (None :: (char, unit) cmd) = [] \<and>
   dispatcher_recv (Some Quit :: (char, unit) cmd) = [Quit]"
  using update_iteration [of "KeyMsg CHR ''a''" demo 3 3 Quit]
  by (simp add: demo_def render_eq line_feeds_def)

subsection \<open>C4: a batch message\<close>

text \<open>
  C4. For a batch message the loop sends every command of the batch on \<^verbatim>\<open>cmds\<close>, one
  by one in the order of the batch, and does nothing else: \<^verbatim>\<open>update\<close> is not called,
  nothing is written, the model and the line count stay as they are, and the loop goes
  on with the next value.
\<close>

theorem batch_iteration:
  "loop_iteration p model n (RecvMsgs (BatchMsg cs)) = (map SendCmds cs, Continue model n) \<and>
   sent_cmds (fst (loop_iteration p model n (RecvMsgs (BatchMsg cs)))) = cs \<and>
   update_calls (fst (loop_iteration p model n (RecvMsgs (BatchMsg cs)))) = [] \<and>
   writes (fst (loop_iteration p model n (RecvMsgs (BatchMsg cs)))) = [] \<and>
   main_loop p model n (RecvMsgs (BatchMsg cs) # evs) =
     (map SendCmds cs @ fst (main_loop p model n evs), snd (main_loop p model n evs))"
  by (simp add: sent_cmds_map update_calls_map writes_map split_beta)

text \<open>C4 at the example program and a batch of the quit command and the nil command.\<close>

theorem batch_iteration_witness:
  "loop_iteration demo 3 3 (RecvMsgs (BatchMsg [Some Quit, None])) =
     ([SendCmds (Some Quit), SendCmds None], Continue 3 3) \<and>
   sent_cmds (fst (loop_iteration demo 3 3 (RecvMsgs (BatchMsg [Some Quit, None])))) =
     [Some Quit, None]"
  using batch_iteration [of demo 3 3 "[Some Quit, None]" "[]"] by simp

subsection \<open>C5: a read woken by the cancel signal\<close>

text \<open>
  C5 as stated fails. The wait of a select reader reports the signal descriptor ready,
  and the one-byte read of the signal fails (its file is already closed): the call
  returns the error of that read, wrapped, which is not the canceled error.
\<close>

theorem cancel_wakeup_counterexample:
  "select_ReadInput demo_select [SelectReady {3}] (Some (OtherError ''file already closed''))
      (Inr (KeyMsg CHR ''a'') :: error + (char, unit) msg) =
     Some ([SysSelect 4 {0, 3}, SysRead 3 1],
           Inl (Errorw ''reading cancel signal'' (OtherError ''file already closed''))) \<and>
   \<not> errors_Is (Errorw ''reading cancel signal'' (OtherError ''file already closed'')) ErrCanceled"
  by (simp add: FD_SETSIZE_def demo_select_def select_ReadInput_def isCancelled_def
      select_read_loop.simps waitForRead_def)

text \<open>
  C5, amended. Take a \<^verbatim>\<open>ReadInput\<close> of a cancelable reader whose flag is not set and
  whose wait, after any number of interrupted system calls, is woken by the cancel
  signal: the select wait leaves the signal descriptor set (whether or not the stream's
  descriptor is set too), or the epoll wait reports the signal descriptor. The call then
  performs exactly one read of one byte on the signal channel and nothing after it. When
  that read succeeds the call returns the canceled error; when it fails the call returns
  the error "reading cancel signal" wrapping the failure. In both cases it returns an
  error, never decoded data.
\<close>

theorem cancel_wakeup:
  "(\<not> isCancelled r \<and> file_fd r < FD_SETSIZE \<and> cancelSignalReader r < FD_SETSIZE \<and>
    (\<forall>e \<in> set es. errors_Is e EINTR) \<and> cancelSignalReader r \<in> fdSet \<longrightarrow>
      select_ReadInput r (map SelectErr es @ SelectReady fdSet # rest) drain decode =
        Some (replicate (length es + 1)
                (SysSelect (max (file_fd r) (cancelSignalReader r) + 1)
                   {file_fd r, cancelSignalReader r})
              @ [SysRead (cancelSignalReader r) 1],
              Inl (case drain of None \<Rightarrow> ErrCanceled
                   | Some readErr \<Rightarrow> Errorw ''reading cancel signal'' readErr))) \<and>
   (\<not> isCancelled r' \<and> (\<forall>e \<in> set es'. errors_Is e EINTR) \<and>
    cancelSignalReader r' \<noteq> file_fd r' \<longrightarrow>
      epoll_ReadInput r' (map EpollErr es' @ EpollEvent (cancelSignalReader r') # rest')
          drain' decode' =
        Some (replicate (length es' + 1) (SysEpollWait (epoll r'))
              @ [SysRead (cancelSignalReader r') 1],
              Inl (case drain' of None \<Rightarrow> ErrCanceled
                   | Some readErr \<Rightarrow> Errorw ''reading cancel signal'' readErr)))"
proof -
  have a: "select_ReadInput r (map SelectErr es @ SelectReady fdSet # rest) drain decode =
        Some (replicate (length es + 1)
                (SysSelect (max (file_fd r) (cancelSignalReader r) + 1)
                   {file_fd r, cancelSignalReader r})
              @ [SysRead (cancelSignalReader r) 1],
              Inl (case drain of None \<Rightarrow> ErrCanceled
                   | Some readErr \<Rightarrow> Errorw ''reading cancel signal'' readErr))"
    if "\<not> isCancelled r" "file_fd r < FD_SETSIZE" "cancelSignalReader r < FD_SETSIZE"
      "\<forall>e \<in> set es. errors_Is e EINTR" "cancelSignalReader r \<in> fdSet"
    using select_read_loop_cancel [OF that(2-5), of rest drain decode] that(1)
    by (simp add: select_ReadInput_def cancel_result_def)
  have b: "epoll_ReadInput r' (map EpollErr es' @ EpollEvent (cancelSignalReader r') # rest')
          drain' decode' =
        Some (replicate (length es' + 1) (SysEpollWait (epoll r'))
              @ [SysRead (cancelSignalReader r') 1],
              Inl (case drain' of None \<Rightarrow> ErrCanceled
                   | Some readErr \<Rightarrow> Errorw ''reading cancel signal'' readErr))"
    if "\<not> isCancelled r'" "\<forall>e \<in> set es'. errors_Is e EINTR"
      "cancelSignalReader r' \<noteq> file_fd r'"
    using epoll_wait_cancel [OF that(2,3), of rest'] that(1)
    by (simp add: epoll_ReadInput_def split: option.splits)
  from a b show ?thesis by blast
qed

text \<open>The amended C5 at a select reader whose wait is interrupted once and then leaves
  both descriptors set, the signal being read, and at an epoll reader whose wait is
  interrupted once and then reports the signal, whose read fails.\<close>

theorem cancel_wakeup_witness:
  "\<not> isCancelled demo_select \<and> file_fd demo_select < FD_SETSIZE \<and>
   cancelSignalReader demo_select < FD_SETSIZE \<and> errors_Is EINTR EINTR \<and>
   cancelSignalReader demo_select \<in> {0, 3} \<and>
   select_ReadInput demo_select (map SelectErr [EINTR] @ SelectReady {0, 3} # []) None
       (Inr (KeyMsg CHR ''a'') :: error + (char, unit) msg) =
     Some ([SysSelect 4 {0, 3}, SysSelect 4 {0, 3}, SysRead 3 1], Inl ErrCanceled) \<and>
   \<not> isCancelled demo_epoll \<and> cancelSignalReader demo_epoll \<noteq> file_fd demo_epoll \<and>
   epoll_ReadInput demo_epoll (map EpollErr [EINTR] @ EpollEvent (cancelSignalReader demo_epoll) # [])
       (Some (OtherError ''file already closed''))
       (Inr (KeyMsg CHR ''a'') :: error + (char, unit) msg) =
     Some ([SysEpollWait 5, SysEpollWait 5, SysRead 3 1],
           Inl (Errorw ''reading cancel signal'' (OtherError ''file already closed'')))"
proof -
  have pre: "\<not> isCancelled demo_select" "file_fd demo_select < FD_SETSIZE"
    "cancelSignalReader demo_select < FD_SETSIZE" "\<forall>e \<in> set [EINTR]. errors_Is e EINTR"
    "cancelSignalReader demo_select \<in> {0, 3}"
    "\<not> isCancelled demo_epoll" "cancelSignalReader demo_epoll \<noteq> file_fd demo_epoll"
    by (simp_all add: FD_SETSIZE_def demo_select_def demo_epoll_def isCancelled_def EINTR_def)
  have v: "file_fd demo_select = 0" "cancelSignalReader demo_select = 3"
    "cancelSignalReader demo_epoll = 3" "epoll demo_epoll = 5"
    by (simp_all add: demo_select_def demo_epoll_def)
  from cancel_wakeup [where r = demo_select and es = "[EINTR]" and fdSet = "{0, 3}"
      and rest = "[]" and drain = None
      and decode = "Inr (KeyMsg CHR ''a'') :: error + (char, unit) msg"
      and r' = demo_epoll and es' = "[EINTR]" and rest' = "[]"
      and drain' = "Some (OtherError ''file already closed'')"
      and decode' = "Inr (KeyMsg CHR ''a'') :: error + (char, unit) msg"] pre
  show ?thesis by (simp add: v numeral_2_eq_2)
qed

subsection \<open>C6: the repaint\<close>

lemma render_line_count:
  "fst (render p model n) =
     (if n > 0 then [ClearLines n] else []) @ [WriteStdout (crlf_text (view p model))] \<and>
   snd (render p model n) = int (strings_Count (crlf_text (view p model)) [CHR 0x0D, CHR 0x0A]) \<and>
   snd (render p model n) =
     int (line_count (view p model)) - (if unterminated (view p model) then 1 else 0)"
  by (simp add: render_eq Count_crlf_text line_count_def)

text \<open>
  C6 does not hold of \<^verbatim>\<open>render\<close> as it is written. The function writes the view with
  every line feed turned into carriage return and line feed, after one
  \<^verbatim>\<open>ClearLines(n)\<close> when the recorded count \<open>n\<close> is positive, but the count it returns
  is the number of carriage return and line feed pairs written. That is the number of
  lines written only when the view ends in a line feed or is empty (\<open>render_line_count\<close>);
  for a view whose last line is unterminated it is one less, although the comment of
  \<^verbatim>\<open>render\<close> says that it returns the number of lines rendered. The view of the example
  program \<open>flat\<close> is one such line: its paint records 0 where one line was written, so
  the repaint that follows erases nothing, and in a run of \<^verbatim>\<open>Start\<close> that handles two
  key messages the line is written three times and never erased. Likewise the three
  lines a, b and c with no line feed after c are counted as 2.
\<close>

theorem render_unterminated_view:
  "view flat 0 = ''[error] could not perform assertion on model'' \<and>
   line_count (view flat 0) = 1 \<and>
   render flat 0 0 = ([WriteStdout ''[error] could not perform assertion on model''], 0) \<and>
   render flat 0 (snd (render flat 0 0)) =
     ([WriteStdout ''[error] could not perform assertion on model''], 0) \<and>
   fst (Start flat None [RecvMsgs (KeyMsg CHR ''a''), RecvMsgs (KeyMsg CHR ''b'')]) =
     [WriteStdout ''[error] could not perform assertion on model'',
      CallUpdate (KeyMsg CHR ''a'') 0, SendCmds None,
      WriteStdout ''[error] could not perform assertion on model'',
      CallUpdate (KeyMsg CHR ''b'') 0, SendCmds None,
      WriteStdout ''[error] could not perform assertion on model''] \<and>
   line_count ''a\<newline>b\<newline>c'' = 3 \<and>
   strings_Count (strings_Replace ''a\<newline>b\<newline>c'' [CHR 0x0A] [CHR 0x0D, CHR 0x0A] (- 1))
     [CHR 0x0D, CHR 0x0A] = 2"
proof -
  have v: "view flat 0 = ''[error] could not perform assertion on model''"
    by (simp add: flat_def)
  have c: "crlf_text ''[error] could not perform assertion on model'' =
             ''[error] could not perform assertion on model''"
    by (simp add: crlf_text_def)
  have f: "line_feeds ''[error] could not perform assertion on model'' = 0"
    by (simp add: line_feeds_def)
  have l: "line_count (view flat 0) = 1"
    by (simp add: v line_count_def unterminated_def f)
  have r: "render flat 0 n = ((if n > 0 then [ClearLines n] else []) @
             [WriteStdout ''[error] could not perform assertion on model''], 0)" for n
    by (simp add: render_eq v c f)
  have r0: "render flat 0 0 = ([WriteStdout ''[error] could not perform assertion on model''], 0)"
    by (simp add: r)
  have i: "init flat () = (0, None)" "update flat msg 0 = (0, None)" for msg
    by (simp_all add: flat_def)
  have s: "fst (Start flat None [RecvMsgs (KeyMsg CHR ''a''), RecvMsgs (KeyMsg CHR ''b'')]) =
     [WriteStdout ''[error] could not perform assertion on model'',
      CallUpdate (KeyMsg CHR ''a'') 0, SendCmds None,
      WriteStdout ''[error] could not perform assertion on model'',
      CallUpdate (KeyMsg CHR ''b'') 0, SendCmds None,
      WriteStdout ''[error] could not perform assertion on model'']"
    by (simp add: Start_def i r0)
  have t: "line_count ''a\<newline>b\<newline>c'' = 3"
    by (simp add: line_count_def unterminated_def line_feeds_def)
  have u: "strings_Count (strings_Replace ''a\<newline>b\<newline>c'' [CHR 0x0A] [CHR 0x0D, CHR 0x0A] (- 1))
     [CHR 0x0D, CHR 0x0A] = 2"
    by simp
  from v l r0 s t u show ?thesis by simp
qed

subsection \<open>C7: the quit message\<close>

text \<open>
  C7. On the quit message the loop closes \<^verbatim>\<open>done\<close>, which tells the dispatcher to
  stop, and returns nil, the deferred call restoring the terminal; it does nothing else.
  So a run of \<^verbatim>\<open>Start\<close> that is still in its loop and then receives the quit message
  returns nil, having added to what it did before only these two actions: no call of
  \<^verbatim>\<open>update\<close>, no write, and nothing of what is received later.
\<close>

theorem quit_returns:
  "loop_iteration p model n (RecvMsgs QuitMsg) = ([CloseDone, RestoreTerminal], Return None) \<and>
   (Start p None evs = (acts, None) \<longrightarrow>
      Start p None (evs @ RecvMsgs QuitMsg # evs') =
        (acts @ [CloseDone, RestoreTerminal], Some None))"
proof -
  have "Start p None (evs @ RecvMsgs QuitMsg # evs') =
          (acts @ [CloseDone, RestoreTerminal], Some None)"
    if st: "Start p None evs = (acts, None)"
  proof -
    obtain model cmd where i: "init p () = (model, cmd)" by (cases "init p ()")
    obtain painted l where r: "render p model 0 = (painted, l)" by (cases "render p model 0")
    obtain a res where m: "main_loop p model l evs = (a, res)"
      by (cases "main_loop p model l evs")
    from st i r m have res: "res = None"
      and acts: "acts = (case cmd of None \<Rightarrow> [] | Some f \<Rightarrow> [GoSendCmds cmd]) @ painted @ a"
      by (simp_all add: Start_def)
    from main_loop_quit [OF m [unfolded res], of evs'] i r acts
    show ?thesis by (simp add: Start_def)
  qed
  then show ?thesis by simp
qed

text \<open>C7 at the example program: a key message, then the quit message, then another
  key message that is never handled.\<close>

theorem quit_returns_witness:
  "Start demo None [RecvMsgs (KeyMsg CHR ''a'')] =
     ([WriteStdout (crlf_text ''line\<newline>line\<newline>line\<newline>''), CallUpdate (KeyMsg CHR ''a'') 3,
       SendCmds None, ClearLines 3, WriteStdout (crlf_text ''line\<newline>'')], None) \<and>
   Start demo None ([RecvMsgs (KeyMsg CHR ''a'')] @ RecvMsgs QuitMsg # [RecvMsgs (KeyMsg CHR ''b'')]) =
     ([WriteStdout (crlf_text ''line\<newline>line\<newline>line\<newline>''), CallUpdate (KeyMsg CHR ''a'') 3,
       SendCmds None, ClearLines 3, WriteStdout (crlf_text ''line\<newline>'')]
      @ [CloseDone, RestoreTerminal], Some None)"
proof -
  have s: "Start demo None [RecvMsgs (KeyMsg CHR ''a'')] =
     ([WriteStdout (crlf_text ''line\<newline>line\<newline>line\<newline>''), CallUpdate (KeyMsg CHR ''a'') 3,
       SendCmds None, ClearLines 3, WriteStdout (crlf_text ''line\<newline>'')], None)"
    by (simp add: Start_def demo_def render_eq line_feeds_def numeral_3_eq_3)
  from quit_returns [of demo 0 0 "[RecvMsgs (KeyMsg CHR ''a'')]" _ "[RecvMsgs (KeyMsg CHR ''b'')]"] s
  show ?thesis by simp
qed

subsection \<open>C8: a read when the flag is already set\<close>

text \<open>
  C8. A \<^verbatim>\<open>ReadInput\<close> of either cancelable reader whose flag is set returns the
  canceled error at once: it makes no call at all, so it does not wait on the stream and
  decodes nothing, whatever the stream holds. In particular this is what the first
  \<^verbatim>\<open>ReadInput\<close> after a \<^verbatim>\<open>Cancel\<close> does.
\<close>

theorem cancelled_ReadInput:
  "(isCancelled r \<longrightarrow> select_ReadInput r sels drain decode = Some ([], Inl ErrCanceled)) \<and>
   (isCancelled r' \<longrightarrow> epoll_ReadInput r' waits drain' decode' = Some ([], Inl ErrCanceled)) \<and>
   select_ReadInput (fst (select_Cancel r written)) sels drain decode =
     Some ([], Inl ErrCanceled) \<and>
   epoll_ReadInput (fst (epoll_Cancel r' written')) waits drain' decode' =
     Some ([], Inl ErrCanceled)"
  by (simp add: select_ReadInput_def epoll_ReadInput_def select_Cancel_def epoll_Cancel_def
      isCancelled_def setCancelled_def)

text \<open>C8 at the example readers with their flags set, data being ready on the
  stream.\<close>

theorem cancelled_ReadInput_witness:
  "isCancelled (demo_select\<lparr>cancelled := True\<rparr>) \<and>
   select_ReadInput (demo_select\<lparr>cancelled := True\<rparr>) [SelectReady {0}] None
       (Inr (KeyMsg CHR ''a'') :: error + (char, unit) msg) = Some ([], Inl ErrCanceled) \<and>
   isCancelled (demo_epoll\<lparr>cancelled := True\<rparr>) \<and>
   epoll_ReadInput (demo_epoll\<lparr>cancelled := True\<rparr>) [EpollEvent 0] None
       (Inr (KeyMsg CHR ''a'') :: error + (char, unit) msg) = Some ([], Inl ErrCanceled)"
  using cancelled_ReadInput [where r = "demo_select\<lparr>cancelled := True\<rparr>"
      and sels = "[SelectReady {0}]" and drain = None
      and decode = "Inr (KeyMsg CHR ''a'') :: error + (char, unit) msg"
      and r' = "demo_epoll\<lparr>cancelled := True\<rparr>" and waits = "[EpollEvent 0]" and drain' = None
      and decode' = "Inr (KeyMsg CHR ''a'') :: error + (char, unit) msg"]
  by (simp add: isCancelled_def)

subsection \<open>C9: Close\<close>

text \<open>
  C9. \<^verbatim>\<open>Close\<close> of either cancelable reader performs all its release steps, in the
  same order, whatever their results: the two ends of the signal pipe for the select
  reader, the epoll descriptor and then the two ends for the epoll reader. It returns
  nil exactly when every step succeeded. Otherwise it returns one error, made by
  \<^verbatim>\<open>fmt.Errorf\<close> from the texts of the failed steps, each led by the name of its step,
  in the order of the steps and joined by a comma and a space; so the text of every
  failure is part of it.
\<close>

theorem Close_aggregates:
  "fst (select_Close r w rd) = [SysClose (cancelSignalWriter r), SysClose (cancelSignalReader r)] \<and>
   snd (select_Close r w rd) =
     (let fs = failures [(''closing cancel signal writer'', w), (''closing cancel signal reader'', rd)]
      in if fs = [] then None else Some (Errorf (strings_Join fs '', ''))) \<and>
   (snd (select_Close r w rd) = None \<longleftrightarrow> w = None \<and> rd = None) \<and>
   (w = Some t \<longrightarrow> (\<exists>m. snd (select_Close r w rd) = Some (Errorf m) \<and>
      sublist (''closing cancel signal writer: '' @ t) m)) \<and>
   (rd = Some t' \<longrightarrow> (\<exists>m. snd (select_Close r w rd) = Some (Errorf m) \<and>
      sublist (''closing cancel signal reader: '' @ t') m)) \<and>
   fst (epoll_Close q ep ew er) =
     [SysClose (epoll q), SysClose (cancelSignalWriter q), SysClose (cancelSignalReader q)] \<and>
   snd (epoll_Close q ep ew er) =
     (let fs = failures [(''closing epoll'', ep), (''closing cancel signal writer'', ew),
                         (''closing cancel signal reader'', er)]
      in if fs = [] then None else Some (Errorf (strings_Join fs '', ''))) \<and>
   (snd (epoll_Close q ep ew er) = None \<longleftrightarrow> ep = None \<and> ew = None \<and> er = None) \<and>
   (ep = Some u \<longrightarrow> (\<exists>m. snd (epoll_Close q ep ew er) = Some (Errorf m) \<and>
      sublist (''closing epoll: '' @ u) m)) \<and>
   (ew = Some u' \<longrightarrow> (\<exists>m. snd (epoll_Close q ep ew er) = Some (Errorf m) \<and>
      sublist (''closing cancel signal writer: '' @ u') m)) \<and>
   (er = Some u'' \<longrightarrow> (\<exists>m. snd (epoll_Close q ep ew er) = Some (Errorf m) \<and>
      sublist (''closing cancel signal reader: '' @ u'') m))"
proof -
  have s1: "fst (select_Close r w rd) =
      [SysClose (cancelSignalWriter r), SysClose (cancelSignalReader r)]"
    by (simp add: select_Close_eq)
  have s2: "snd (select_Close r w rd) =
     (let fs = failures [(''closing cancel signal writer'', w), (''closing cancel signal reader'', rd)]
      in if fs = [] then None else Some (Errorf (strings_Join fs '', '')))"
    by (simp add: select_Close_eq)
  have s3: "snd (select_Close r w rd) = None \<longleftrightarrow> w = None \<and> rd = None"
    by (simp add: s2 Let_def failures_empty)
  have s4: "w = Some t \<longrightarrow> (\<exists>m. snd (select_Close r w rd) = Some (Errorf m) \<and>
      sublist (''closing cancel signal writer: '' @ t) m)"
  proof
    assume v: "w = Some t"
    show "\<exists>m. snd (select_Close r w rd) = Some (Errorf m) \<and>
      sublist (''closing cancel signal writer: '' @ t) m"
      by (rule close_step_reported [OF s2, where label = "''closing cancel signal writer''" and t = t])
         (simp_all add: v)
  qed
  have s5: "rd = Some t' \<longrightarrow> (\<exists>m. snd (select_Close r w rd) = Some (Errorf m) \<and>
      sublist (''closing cancel signal reader: '' @ t') m)"
  proof
    assume v: "rd = Some t'"
    show "\<exists>m. snd (select_Close r w rd) = Some (Errorf m) \<and>
      sublist (''closing cancel signal reader: '' @ t') m"
      by (rule close_step_reported [OF s2, where label = "''closing cancel signal reader''" and t = t'])
         (simp_all add: v)
  qed
  have e1: "fst (epoll_Close q ep ew er) =
     [SysClose (epoll q), SysClose (cancelSignalWriter q), SysClose (cancelSignalReader q)]"
    by (simp add: epoll_Close_eq)
  have e2: "snd (epoll_Close q ep ew er) =
     (let fs = failures [(''closing epoll'', ep), (''closing cancel signal writer'', ew),
                         (''closing cancel signal reader'', er)]
      in if fs = [] then None else Some (Errorf (strings_Join fs '', '')))"
    by (simp add: epoll_Close_eq)
  have e3: "snd (epoll_Close q ep ew er) = None \<longleftrightarrow> ep = None \<and> ew = None \<and> er = None"
    by (simp add: e2 Let_def failures_empty)
  have e4: "ep = Some u \<longrightarrow> (\<exists>m. snd (epoll_Close q ep ew er) = Some (Errorf m) \<and>
      sublist (''closing epoll: '' @ u) m)"
  proof
    assume v: "ep = Some u"
    show "\<exists>m. snd (epoll_Close q ep ew er) = Some (Errorf m) \<and>
      sublist (''closing epoll: '' @ u) m"
      by (rule close_step_reported [OF e2, where label = "''closing epoll''" and t = u])
         (simp_all add: v)
  qed
  have e5: "ew = Some u' \<longrightarrow> (\<exists>m. snd (epoll_Close q ep ew er) = Some (Errorf m) \<and>
      sublist (''closing cancel signal writer: '' @ u') m)"
  proof
    assume v: "ew = Some u'"
    show "\<exists>m. snd (epoll_Close q ep ew er) = Some (Errorf m) \<and>
      sublist (''closing cancel signal writer: '' @ u') m"
      by (rule close_step_reported [OF e2, where label = "''closing cancel signal writer''" and t = u'])
         (simp_all add: v)
  qed
  have e6: "er = Some u'' \<longrightarrow> (\<exists>m. snd (epoll_Close q ep ew er) = Some (Errorf m) \<and>
      sublist (''closing cancel signal reader: '' @ u'') m)"
  proof
    assume v: "er = Some u''"
    show "\<exists>m. snd (epoll_Close q ep ew er) = Some (Errorf m) \<and>
      sublist (''closing cancel signal reader: '' @ u'') m"
      by (rule close_step_reported [OF e2, where label = "''closing cancel signal reader''" and t = u''])
         (simp_all add: v)
  qed
  from s1 s2 s3 s4 s5 e1 e2 e3 e4 e5 e6 show ?thesis by blast
qed

text \<open>C9 at the example readers: both steps of the select reader fail; of the three
  steps of the epoll reader the first and the last fail, and the middle one is performed
  all the same.\<close>

theorem Close_aggregates_witness:
  "select_Close demo_select (Some ''file already closed'') (Some ''bad file descriptor'') =
     ([SysClose 4, SysClose 3],
      Some (Errorf ''closing cancel signal writer: file already closed, closing cancel signal reader: bad file descriptor'')) \<and>
   (\<exists>m. snd (select_Close demo_select (Some ''file already closed'') (Some ''bad file descriptor'')) =
          Some (Errorf m) \<and>
        sublist (''closing cancel signal writer: '' @ ''file already closed'') m) \<and>
   (\<exists>m. snd (select_Close demo_select (Some ''file already closed'') (Some ''bad file descriptor'')) =
          Some (Errorf m) \<and>
        sublist (''closing cancel signal reader: '' @ ''bad file descriptor'') m) \<and>
   epoll_Close demo_epoll (Some ''bad file descriptor'') None (Some ''file already closed'') =
     ([SysClose 5, SysClose 4, SysClose 3],
      Some (Errorf ''closing epoll: bad file descriptor, closing cancel signal reader: file already closed'')) \<and>
   (\<exists>m. snd (epoll_Close demo_epoll (Some ''bad file descriptor'') None (Some ''file already closed'')) =
          Some (Errorf m) \<and>
        sublist (''closing epoll: '' @ ''bad file descriptor'') m) \<and>
   (\<exists>m. snd (epoll_Close demo_epoll (Some ''bad file descriptor'') None (Some ''file already closed'')) =
          Some (Errorf m) \<and>
        sublist (''closing cancel signal reader: '' @ ''file already closed'') m)"
proof -
  have s: "select_Close demo_select (Some ''file already closed'') (Some ''bad file descriptor'') =
     ([SysClose 4, SysClose 3],
      Some (Errorf ''closing cancel signal writer: file already closed, closing cancel signal reader: bad file descriptor''))"
    by (simp add: select_Close_def demo_select_def)
  have e: "epoll_Close demo_epoll (Some ''bad file descriptor'') None (Some ''file already closed'') =
     ([SysClose 5, SysClose 4, SysClose 3],
      Some (Errorf ''closing epoll: bad file descriptor, closing cancel signal reader: file already closed''))"
    by (simp add: epoll_Close_def demo_epoll_def)
  from Close_aggregates [where r = demo_select and w = "Some ''file already closed''"
      and rd = "Some ''bad file descriptor''" and t = "''file already closed''"
      and t' = "''bad file descriptor''" and q = demo_epoll and ep = "Some ''bad file descriptor''"
      and ew = None and er = "Some ''file already closed''" and u = "''bad file descriptor''"
      and u'' = "''file already closed''"]
  have "(\<exists>m. snd (select_Close demo_select (Some ''file already closed'') (Some ''bad file descriptor'')) =
          Some (Errorf m) \<and>
        sublist (''closing cancel signal writer: '' @ ''file already closed'') m) \<and>
   (\<exists>m. snd (select_Close demo_select (Some ''file already closed'') (Some ''bad file descriptor'')) =
          Some (Errorf m) \<and>
        sublist (''closing cancel signal reader: '' @ ''bad file descriptor'') m) \<and>
   (\<exists>m. snd (epoll_Close demo_epoll (Some ''bad file descriptor'') None (Some ''file already closed'')) =
          Some (Errorf m) \<and>
        sublist (''closing epoll: '' @ ''bad file descriptor'') m) \<and>
   (\<exists>m. snd (epoll_Close demo_epoll (Some ''bad file descriptor'') None (Some ''file already closed'')) =
          Some (Errorf m) \<and>
        sublist (''closing cancel signal reader: '' @ ''file already closed'') m)"
    by blast
  with s e show ?thesis by blast
qed

subsection \<open>C10: Batch\<close>

text \<open>
  C10. \<^verbatim>\<open>Batch\<close> of an empty command list is the nil command; \<^verbatim>\<open>Batch\<close> of a non-empty
  list is a non-nil command whose call returns the batch message holding exactly the given
  commands in the given order.
\<close>

theorem Batch_result:
  "Batch [] = (None :: ('k, 'a) cmd) \<and>
   (cmds \<noteq> [] \<longrightarrow> (\<exists>f. Batch cmds = Some f \<and> f () = BatchMsg cmds))"
  by (simp add: Batch_def)

text \<open>C10 at the list of the quit command and the nil command.\<close>

theorem Batch_result_witness:
  "Batch [] = (None :: (nat, nat) cmd) \<and>
   [Some Quit, None] \<noteq> ([] :: (nat, nat) cmd list) \<and>
   (\<exists>f. Batch [Some Quit, None :: (nat, nat) cmd] = Some f \<and> f () = BatchMsg [Some Quit, None])"
  using Batch_result [of "[Some Quit, None :: (nat, nat) cmd]"] by simp

end
